theory Spec2Isabelle
  imports Main
begin

section \<open>JavaScript values used by the client\<close>

text \<open>
  The TypeScript sources are embedded along their type annotations. A field of type
  \<^verbatim>\<open>string | null\<close> is a \<^typ>\<open>string option\<close> (\<open>None\<close> is \<^verbatim>\<open>null\<close>), a dictionary lookup
  is a map (\<open>None\<close> is \<^verbatim>\<open>undefined\<close>), and a \<^verbatim>\<open>number\<close> that counts pages or items is an
  \<^typ>\<open>int\<close>. JavaScript tests such fields for truthiness: the empty string is falsy.
\<close>

definition truthy :: "string option \<Rightarrow> bool" where
  "truthy k = (case k of None \<Rightarrow> False | Some s \<Rightarrow> s \<noteq> [])"

text \<open>Values of request parameters (\<^verbatim>\<open>params: any\<close>): JSON-like data.\<close>

datatype json =
    JNull
  | JBool bool
  | JNum int
  | JStr string
  | JArr "json list"
  | JObj "(string \<times> json) list"

type_synonym params = "string \<rightharpoonup> json"

text \<open>Truthiness of a property read: an absent property is \<^verbatim>\<open>undefined\<close>.\<close>

fun truthy_prop :: "json option \<Rightarrow> bool" where
  "truthy_prop None = False"
| "truthy_prop (Some JNull) = False"
| "truthy_prop (Some (JBool b)) = b"
| "truthy_prop (Some (JNum n)) = (n \<noteq> 0)"
| "truthy_prop (Some (JStr s)) = (s \<noteq> [])"
| "truthy_prop (Some (JArr xs)) = True"
| "truthy_prop (Some (JObj kvs)) = True"

text \<open>Decimal rendering of a number inside a template literal.\<close>

function show_nat :: "nat \<Rightarrow> string" where
  "show_nat n = (if n < 10 then [''0123456789'' ! n]
                 else show_nat (n div 10) @ [''0123456789'' ! (n mod 10)])"
  by pat_completeness auto
termination
  by (relation "measure (\<lambda>n. n)") auto

declare show_nat.simps [simp del]

text \<open>\<^verbatim>\<open>Array.prototype.join\<close> on an array of strings.\<close>

fun join :: "string \<Rightarrow> string list \<Rightarrow> string" where
  "join sep [] = []"
| "join sep [x] = x"
| "join sep (x # y # ys) = x @ sep @ join sep (y # ys)"

section \<open>Errors (errors.ts)\<close>

text \<open>
  Every exception that the modelled code can raise is a value. \<open>TypeError\<close> and
  \<open>SyntaxError\<close> are the built-in errors of a null dereference and of \<^verbatim>\<open>JSON.parse\<close>,
  \<open>AssertionError\<close> is raised by \<^verbatim>\<open>assert\<close>, \<open>NetworkError\<close> is a rejection of the transport.
\<close>

datatype error =
    AuthenticationError string
  | APIError string
  | ExportError string
  | ReasonRequiredError
  | AssertionError string
  | TypeError
  | SyntaxError
  | NetworkError string

record ErrorResponse =
  error_code :: string
  message :: "string option"
  messages :: "(string \<times> string list) list option"

text \<open>
  The constructor of \<^verbatim>\<open>APIError\<close> computes the message of the error. \<open>messages\<close> holds
  the properties of the object in the enumeration order of \<^verbatim>\<open>for (const name in ...)\<close>,
  each name with its value; an array of strings inside a template literal is rendered
  by joining with a comma.
\<close>

definition APIError_message :: "ErrorResponse \<Rightarrow> string" where
  "APIError_message response =
     (if truthy (message response) then the (message response)
      else (case messages response of
              Some ms \<Rightarrow> join '', '' (map (\<lambda>(name, xs). name @ '' '' @ join '','' xs) ms)
            | None \<Rightarrow> ''unknown API error''))"

section \<open>Configuration (config.ts)\<close>

record URL =
  hostname :: string
  pathname :: string

text \<open>
  The fields of \<^verbatim>\<open>Config\<close> that the request layer reads. The event pipeline, the
  publish mock, \<^verbatim>\<open>guardDenyIfUnreachable\<close> and \<^verbatim>\<open>cli\<close> are not read by it.
\<close>

record Config =
  name :: "string option"
  apiBaseURL :: URL
  publishBaseURL :: URL
  apiVersion :: int
  policyKey :: "string option"
  policyKeys :: "string \<rightharpoonup> string"
  publishKey :: "string option"
  guardApplicationKey :: "string option"
  guardUserToken :: "string option"

text \<open>
  \<^verbatim>\<open>ConfigOverrides\<close>: every field is optional; \<open>None\<close> is an absent property, and a
  present property holds a value of its declared type.
\<close>

record ConfigOverrides =
  ov_name :: "string option"
  ov_apiBaseURL :: "URL option"
  ov_publishBaseURL :: "URL option"
  ov_apiVersion :: "int option"
  ov_policyKey :: "string option"
  ov_publishKey :: "string option"
  ov_guardApplicationKey :: "string option"
  ov_guardUserToken :: "string option"

text \<open>The object spread \<^verbatim>\<open>{ ...globalConfig, ...options.config }\<close>.\<close>

definition merge_config :: "Config \<Rightarrow> ConfigOverrides \<Rightarrow> Config" where
  "merge_config g ov =
     \<lparr> name = (case ov_name ov of Some v \<Rightarrow> Some v | None \<Rightarrow> name g),
       apiBaseURL = (case ov_apiBaseURL ov of Some v \<Rightarrow> v | None \<Rightarrow> apiBaseURL g),
       publishBaseURL = (case ov_publishBaseURL ov of Some v \<Rightarrow> v | None \<Rightarrow> publishBaseURL g),
       apiVersion = (case ov_apiVersion ov of Some v \<Rightarrow> v | None \<Rightarrow> apiVersion g),
       policyKey = (case ov_policyKey ov of Some v \<Rightarrow> Some v | None \<Rightarrow> policyKey g),
       policyKeys = policyKeys g,
       publishKey = (case ov_publishKey ov of Some v \<Rightarrow> Some v | None \<Rightarrow> publishKey g),
       guardApplicationKey =
         (case ov_guardApplicationKey ov of Some v \<Rightarrow> Some v | None \<Rightarrow> guardApplicationKey g),
       guardUserToken =
         (case ov_guardUserToken ov of Some v \<Rightarrow> Some v | None \<Rightarrow> guardUserToken g) \<rparr>"

text \<open>
  \<^verbatim>\<open>getPolicyKey\<close>, with \<^verbatim>\<open>process.env\<close> as its first argument. The block guarded by
  \<^verbatim>\<open>if (config.name)\<close> is \<open>named_policy_key\<close>: it yields the key of an early return, or
  \<open>None\<close> when control falls through to the default key.
\<close>

definition named_policy_key :: "(string \<rightharpoonup> string) \<Rightarrow> Config \<Rightarrow> string option" where
  "named_policy_key penv cfg =
     (case name cfg of
        None \<Rightarrow> None
      | Some n \<Rightarrow>
          if n = [] then None
          else if truthy (policyKeys cfg n) then policyKeys cfg n
          else if truthy (penv (''CASED_'' @ n @ ''_POLICY_KEY''))
               then penv (''CASED_'' @ n @ ''_POLICY_KEY'')
          else None)"

definition getPolicyKey :: "(string \<rightharpoonup> string) \<Rightarrow> Config \<Rightarrow> string option" where
  "getPolicyKey penv cfg =
     (case named_policy_key penv cfg of
        Some key \<Rightarrow> Some key
      | None \<Rightarrow>
          (case policyKey cfg of
             Some key \<Rightarrow> Some key
           | None \<Rightarrow>
               if truthy (penv ''CASED_POLICY_KEY'') then penv ''CASED_POLICY_KEY''
               else None))"

section \<open>The request dispatcher (client.ts)\<close>

datatype Method = GET | POST | PUT | DELETE

datatype BaseURL = Api | Publish | Cli

text \<open>\<^verbatim>\<open>RequestOptions & PaginationOptions\<close>; \<^verbatim>\<open>request\<close> ignores the last two fields.\<close>

record RequestOptions =
  http_method :: Method
  baseURL :: "BaseURL option"
  path :: "string option"
  params :: params
  config :: ConfigOverrides
  page :: "int option"
  perPage :: "int option"

text \<open>
  What the transport receives. The query string and the request body are kept as the
  parameter object that \<^verbatim>\<open>querystring.stringify\<close> and \<^verbatim>\<open>JSON.stringify\<close> serialise; the
  \<^verbatim>\<open>Content-Length\<close> header, the byte length of the serialised body, is not represented.
\<close>

record https_opts =
  host :: string
  url_pathname :: string
  url_search :: "params option"
  req_method :: Method
  headers :: "(string \<times> string) list"

record IncomingMessage =
  statusCode :: nat
  res_headers :: "string \<rightharpoonup> string"

text \<open>
  A value of type \<^verbatim>\<open>any | null\<close> held by \<^verbatim>\<open>data\<close>: \<^verbatim>\<open>null\<close>, a parsed JSON value, or the
  object \<^verbatim>\<open>{ location: ... }\<close> built for a redirect (its field is \<^verbatim>\<open>undefined\<close> when the
  header is absent). The type \<open>'j\<close> of parsed JSON values is left open: each typed use of
  such a value in the sources is a view of it, supplied by the environment.
\<close>

datatype 'j any = Null | Parsed 'j | Location "string option"

text \<open>The payloads that the sources read at a declared type.\<close>

record 'a PageResponse =
  results :: "'a list"
  total_count :: int
  total_pages :: int

datatype ExportState = Pending | Processing | Successful | Errored

datatype SessionState = Requested | Approved | Denied | Timed_out | Canceled

text \<open>
  The environment of the client: the process-wide configuration and environment
  variables, the library version, the transport \<^verbatim>\<open>httpsRequest\<close> (which acts on the state
  \<open>'w\<close> of the world outside and may reject), the timer, and the library functions
  \<^verbatim>\<open>JSON.parse\<close> (\<open>None\<close> when it throws) and \<^verbatim>\<open>new URL(path, base).pathname\<close>. The four
  views read a parsed JSON value at the type that the sources declare for it.
\<close>

record ('j, 'a, 'w) env =
  globalConfig :: Config
  process_env :: "string \<rightharpoonup> string"
  version :: string
  URL_pathname :: "string \<Rightarrow> URL \<Rightarrow> string"
  httpsRequest ::
    "https_opts \<Rightarrow> params option \<Rightarrow> 'w \<Rightarrow> (error + IncomingMessage \<times> string) \<times> 'w"
  sleep :: "nat \<Rightarrow> 'w \<Rightarrow> 'w"
  JSON_parse :: "string \<Rightarrow> 'j any option"
  as_ErrorResponse :: "'j \<Rightarrow> ErrorResponse"
  as_PageResponse :: "'j \<Rightarrow> 'a PageResponse"
  state_Export :: "'j \<Rightarrow> ExportState"
  state_Session :: "'j \<Rightarrow> SessionState"

text \<open>
  Lines 65 to 98 of \<^verbatim>\<open>request\<close>: the API key for the call, or an
  \<^verbatim>\<open>AuthenticationError\<close>.
\<close>

definition resolve_apiKey ::
  "(string \<rightharpoonup> string) \<Rightarrow> RequestOptions \<Rightarrow> Config \<Rightarrow> error + string" where
  "resolve_apiKey penv options cfg =
     (if baseURL options = Some Publish then
        (if \<not> truthy (publishKey cfg) then
           Inl (AuthenticationError
             (''No Publish API key provided. '' @
              ''Set your API key using config.publishKey = <API-KEY>, or supply the key with the request. '' @
              ''See https://docs.cased.com for more information.''))
         else Inr (the (publishKey cfg)))
      else if baseURL options = Some Cli then
        (if \<not> truthy (guardApplicationKey cfg) then
           Inl (AuthenticationError
             (''No CLI API key provided. '' @
              ''Set your API key using config.guardApplicationKey = <API-KEY>, or supply the key with the request. '' @
              ''See https://docs.cased.com for more information.''))
         else Inr (the (guardApplicationKey cfg)))
      else
        (let policyKey = getPolicyKey penv cfg in
         if \<not> truthy policyKey then
           Inl (AuthenticationError
             (''No API key provided. '' @
              ''Set your API key using config.policyKey = <POLICY-KEY>, or supply the key with the request. '' @
              ''See https://docs.cased.com for more information.''))
         else Inr (the policyKey)))"

text \<open>
  Lines 85 to 87: once the CLI key is resolved, a missing \<^verbatim>\<open>user_token\<close> parameter is
  filled from \<^verbatim>\<open>params.userToken || config.guardUserToken\<close>.
\<close>

definition json_of_key :: "string option \<Rightarrow> json" where
  "json_of_key k = (case k of None \<Rightarrow> JNull | Some s \<Rightarrow> JStr s)"

definition with_user_token :: "RequestOptions \<Rightarrow> Config \<Rightarrow> params" where
  "with_user_token options cfg =
     (if baseURL options = Some Cli \<and> \<not> truthy_prop (params options ''user_token'') then
        (params options)(''user_token'' \<mapsto>
           (if truthy_prop (params options ''userToken'')
            then the (params options ''userToken'')
            else json_of_key (guardUserToken cfg)))
      else params options)"

text \<open>Lines 100 to 127: the options and the body handed to the transport.\<close>

definition build_opts ::
  "('j, 'a, 'w) env \<Rightarrow> RequestOptions \<Rightarrow> Config \<Rightarrow> string \<Rightarrow> params \<Rightarrow> https_opts \<times> params option"
  where
  "build_opts env options cfg apiKey ps =
     (let base = (if baseURL options = Some Publish then publishBaseURL cfg else apiBaseURL cfg);
          hdrs = [(''Accept'', ''application/json''),
                  (''Authorization'', ''Bearer '' @ apiKey),
                  (''User-Agent'', ''cased-node/'' @ version env)]
      in (\<lparr> host = hostname base,
             url_pathname = URL_pathname env (case path options of Some p \<Rightarrow> p | None \<Rightarrow> []) base,
             url_search = (if http_method options = GET then Some ps else None),
             req_method = http_method options,
             headers = (if http_method options \<noteq> GET
                        then hdrs @ [(''Content-Type'', ''application/json; charset=utf-8'')]
                        else hdrs) \<rparr>,
          if http_method options \<noteq> GET then Some ps else None))"

text \<open>\<^verbatim>\<open>new APIError(data)\<close>: reading a field of \<^verbatim>\<open>null\<close> throws a \<^verbatim>\<open>TypeError\<close>.\<close>

definition new_APIError :: "('j, 'a, 'w) env \<Rightarrow> 'j any \<Rightarrow> error" where
  "new_APIError env data =
     (case data of
        Null \<Rightarrow> TypeError
      | Parsed j \<Rightarrow> APIError (APIError_message (as_ErrorResponse env j))
      | Location l \<Rightarrow> APIError ''unknown API error'')"

text \<open>Lines 131 to 155: the payload and the classification of the status code.\<close>

definition handle_response ::
  "('j, 'a, 'w) env \<Rightarrow> IncomingMessage \<Rightarrow> string \<Rightarrow> error + 'j any" where
  "handle_response env response body =
     (case (if res_headers response ''content-type'' = Some ''application/json; charset=utf-8''
            then JSON_parse env body else Some Null) of
        None \<Rightarrow> Inl SyntaxError
      | Some data \<Rightarrow>
          if statusCode response \<in> {200, 201, 202, 204, 400, 404} then Inr data
          else if statusCode response = 302
            then Inr (Location (res_headers response ''location''))
          else if statusCode response \<in> {401, 417} then Inl (new_APIError env data)
          else Inl (AssertionError
                 (''unhandled status code: '' @ show_nat (statusCode response))))"

definition request ::
  "('j, 'a, 'w) env \<Rightarrow> RequestOptions \<Rightarrow> 'w \<Rightarrow> (error + 'j any) \<times> 'w" where
  "request env options w =
     (let cfg = merge_config (globalConfig env) (config options) in
      case resolve_apiKey (process_env env) options cfg of
        Inl e \<Rightarrow> (Inl e, w)
      | Inr apiKey \<Rightarrow>
          (case build_opts env options cfg apiKey (with_user_token options cfg) of
             (opts, postData) \<Rightarrow>
               (case httpsRequest env opts postData w of
                  (Inl e, w') \<Rightarrow> (Inl e, w')
                | (Inr (response, body), w') \<Rightarrow> (handle_response env response body, w'))))"


section \<open>The paged cursor (client.ts)\<close>

text \<open>
  The object returned by \<^verbatim>\<open>requestPage\<close> closes over the response, the options of the
  call and the page index; the record holds these three, and the members of the object
  are functions of it.
\<close>

record 'a Page =
  page_response :: "'a PageResponse"
  page_options :: RequestOptions
  page_index :: int

definition totalCount :: "'a Page \<Rightarrow> int" where
  "totalCount pg = total_count (page_response pg)"

definition pageCount :: "'a Page \<Rightarrow> int" where
  "pageCount pg = total_pages (page_response pg)"

definition iterator :: "'a Page \<Rightarrow> 'a list" where
  "iterator pg = results (page_response pg)"

text \<open>\<^verbatim>\<open>options.page || 1\<close> and \<^verbatim>\<open>options.perPage || 25\<close>: zero is falsy.\<close>

definition or_default :: "int option \<Rightarrow> int \<Rightarrow> int" where
  "or_default v d = (case v of None \<Rightarrow> d | Some n \<Rightarrow> if n = 0 then d else n)"

text \<open>
  \<^verbatim>\<open>requestPage\<close>. Reading a field of a \<^verbatim>\<open>null\<close> payload throws a \<^verbatim>\<open>TypeError\<close>; the
  redirect object has no \<^verbatim>\<open>total_count\<close>, so that the first assertion fails on it. The
  message of a failed \<^verbatim>\<open>assert\<close> is represented by the asserted expression.
\<close>

definition requestPage ::
  "('j, 'a, 'w) env \<Rightarrow> RequestOptions \<Rightarrow> 'w \<Rightarrow> (error + 'a Page) \<times> 'w" where
  "requestPage env options w =
     (let page = or_default (page options) 1;
          perPage = or_default (perPage options) 25
      in case request env
                (options\<lparr> params :=
                   [''page'' \<mapsto> JNum page, ''per_page'' \<mapsto> JNum perPage] ++ params options \<rparr>) w of
           (Inl e, w') \<Rightarrow> (Inl e, w')
         | (Inr Null, w') \<Rightarrow> (Inl TypeError, w')
         | (Inr (Location l), w') \<Rightarrow>
             (Inl (AssertionError ''response.total_count >= 0''), w')
         | (Inr (Parsed j), w') \<Rightarrow>
             (let response = as_PageResponse env j in
              if \<not> total_count response \<ge> 0
                then (Inl (AssertionError ''response.total_count >= 0''), w')
              else if \<not> total_pages response > 0
                then (Inl (AssertionError ''response.total_pages > 0''), w')
              else if \<not> int (length (results response)) \<ge> 0
                then (Inl (AssertionError ''response.results.length >= 0''), w')
              else (Inr \<lparr> page_response = response, page_options = options, page_index = page \<rparr>,
                    w')))"

definition nextPage ::
  "('j, 'a, 'w) env \<Rightarrow> 'a Page \<Rightarrow> 'w \<Rightarrow> (error + 'a Page option) \<times> 'w" where
  "nextPage env pg w =
     (if page_index pg \<ge> total_pages (page_response pg) then (Inr None, w)
      else (case requestPage env ((page_options pg)\<lparr> page := Some (page_index pg + 1) \<rparr>) w of
              (Inl e, w') \<Rightarrow> (Inl e, w')
            | (Inr p, w') \<Rightarrow> (Inr (Some p), w')))"

definition previousPage ::
  "('j, 'a, 'w) env \<Rightarrow> 'a Page \<Rightarrow> 'w \<Rightarrow> (error + 'a Page option) \<times> 'w" where
  "previousPage env pg w =
     (if page_index pg \<le> 1 then (Inr None, w)
      else (case requestPage env ((page_options pg)\<lparr> page := Some (page_index pg - 1) \<rparr>) w of
              (Inl e, w') \<Rightarrow> (Inl e, w')
            | (Inr p, w') \<Rightarrow> (Inr (Some p), w')))"

definition firstPage ::
  "('j, 'a, 'w) env \<Rightarrow> 'a Page \<Rightarrow> 'w \<Rightarrow> (error + 'a Page) \<times> 'w" where
  "firstPage env pg w = requestPage env ((page_options pg)\<lparr> page := Some 1 \<rparr>) w"

definition lastPage ::
  "('j, 'a, 'w) env \<Rightarrow> 'a Page \<Rightarrow> 'w \<Rightarrow> (error + 'a Page) \<times> 'w" where
  "lastPage env pg w =
     requestPage env ((page_options pg)\<lparr> page := Some (total_pages (page_response pg)) \<rparr>) w"

text \<open>
  The asynchronous generator. What a consumer that drains it observes is the sequence of
  its effects in order: each call of \<^verbatim>\<open>requestPage\<close> with its page option, and each item
  yielded. The loop runs \<open>p\<close> from the page index while \<^verbatim>\<open>p < response.total_pages\<close>; an
  error of a request ends the sequence.
\<close>

datatype 'a page_event = Request_page int | Yield 'a

function asyncIterator_from ::
  "('j, 'a, 'w) env \<Rightarrow> 'a Page \<Rightarrow> int \<Rightarrow> 'w \<Rightarrow> 'a page_event list \<times> (error + unit) \<times> 'w"
  where
  "asyncIterator_from env pg p w =
     (if p < total_pages (page_response pg) then
        (case requestPage env ((page_options pg)\<lparr> page := Some p \<rparr>) w of
           (Inl e, w') \<Rightarrow> ([Request_page p], Inl e, w')
         | (Inr q, w') \<Rightarrow>
             (case asyncIterator_from env pg (p + 1) w' of
                (evs, r, w'') \<Rightarrow> (Request_page p # map Yield (iterator q) @ evs, r, w'')))
      else ([], Inr (), w))"
  by pat_completeness auto
termination
  by (relation "measure (\<lambda>(env, pg, p, w). nat (total_pages (page_response pg) - p))") auto

declare asyncIterator_from.simps [simp del]

definition asyncIterator ::
  "('j, 'a, 'w) env \<Rightarrow> 'a Page \<Rightarrow> 'w \<Rightarrow> 'a page_event list \<times> (error + unit) \<times> 'w" where
  "asyncIterator env pg w = asyncIterator_from env pg (page_index pg) w"

section \<open>Polling (export.ts, cli/session.ts)\<close>

datatype poll_event = Fetch | Sleep nat

definition Export_fetch ::
  "('j, 'a, 'w) env \<Rightarrow> string \<Rightarrow> ConfigOverrides \<Rightarrow> 'w \<Rightarrow> (error + 'j any) \<times> 'w" where
  "Export_fetch env token cfg w =
     request env \<lparr> http_method = GET, baseURL = None, path = Some (''exports/'' @ token),
                   params = Map.empty, config = cfg, page = None, perPage = None \<rparr> w"

text \<open>
  \<^verbatim>\<open>Export.settled\<close>: the loop \<^verbatim>\<open>while (true)\<close> has no bound, so the function is partial and
  \<open>None\<close> is a run that never returns. The result carries the fetches and sleeps
  performed, in order. Destructuring a \<^verbatim>\<open>null\<close> payload throws; on the redirect object
  \<^verbatim>\<open>state\<close> is \<^verbatim>\<open>undefined\<close>, no case of the switch matches and the loop goes round without
  sleeping.
\<close>

partial_function (option) Export_settled ::
  "('j, 'a, 'w) env \<Rightarrow> string \<Rightarrow> nat \<Rightarrow> ConfigOverrides \<Rightarrow> poll_event list \<Rightarrow> 'w
     \<Rightarrow> ((error + unit) \<times> poll_event list \<times> 'w) option"
  where
  "Export_settled env token pollInterval cfg evs w =
     (case Export_fetch env token cfg w of
        (Inl e, w') \<Rightarrow> Some (Inl e, evs @ [Fetch], w')
      | (Inr Null, w') \<Rightarrow> Some (Inl TypeError, evs @ [Fetch], w')
      | (Inr (Location l), w') \<Rightarrow>
          Export_settled env token pollInterval cfg (evs @ [Fetch]) w'
      | (Inr (Parsed j), w') \<Rightarrow>
          (case state_Export env j of
             Pending \<Rightarrow>
               Export_settled env token pollInterval cfg
                 (evs @ [Fetch, Sleep pollInterval]) (sleep env pollInterval w')
           | Processing \<Rightarrow>
               Export_settled env token pollInterval cfg
                 (evs @ [Fetch, Sleep pollInterval]) (sleep env pollInterval w')
           | Successful \<Rightarrow> Some (Inr (), evs @ [Fetch], w')
           | Errored \<Rightarrow> Some (Inl (ExportError ''export errored''), evs @ [Fetch], w')))"

definition Session_fetch ::
  "('j, 'a, 'w) env \<Rightarrow> string \<Rightarrow> ConfigOverrides \<Rightarrow> 'w \<Rightarrow> (error + 'j any) \<times> 'w" where
  "Session_fetch env sessionId cfg w =
     request env \<lparr> http_method = GET, baseURL = Some Cli,
                   path = Some (''cli/sessions/'' @ sessionId),
                   params = Map.empty, config = cfg, page = None, perPage = None \<rparr> w"

text \<open>
  \<^verbatim>\<open>Session.settled\<close>: only \<^verbatim>\<open>requested\<close> keeps the loop going; the \<^verbatim>\<open>default\<close> branch
  returns the session, whatever its state.
\<close>

partial_function (option) Session_settled ::
  "('j, 'a, 'w) env \<Rightarrow> string \<Rightarrow> nat \<Rightarrow> ConfigOverrides \<Rightarrow> poll_event list \<Rightarrow> 'w
     \<Rightarrow> ((error + 'j any) \<times> poll_event list \<times> 'w) option"
  where
  "Session_settled env sessionId pollInterval cfg evs w =
     (case Session_fetch env sessionId cfg w of
        (Inl e, w') \<Rightarrow> Some (Inl e, evs @ [Fetch], w')
      | (Inr Null, w') \<Rightarrow> Some (Inl TypeError, evs @ [Fetch], w')
      | (Inr (Location l), w') \<Rightarrow> Some (Inr (Location l), evs @ [Fetch], w')
      | (Inr (Parsed j), w') \<Rightarrow>
          (case state_Session env j of
             Requested \<Rightarrow>
               Session_settled env sessionId pollInterval cfg
                 (evs @ [Fetch, Sleep pollInterval]) (sleep env pollInterval w')
           | _ \<Rightarrow> Some (Inr (Parsed j), evs @ [Fetch], w')))"


text \<open>
  The sequence of fetches that \<^verbatim>\<open>Export.settled\<close> observes while the export is pending:
  \<open>world_after_polls\<close> is the world after \<open>k\<close> rounds of a fetch and a sleep, and
  \<open>nth_fetch_state\<close> is the state returned by the fetch that follows them (\<open>None\<close> when
  this fetch fails or returns no export).
\<close>

primrec world_after_polls ::
  "('j, 'a, 'w) env \<Rightarrow> string \<Rightarrow> nat \<Rightarrow> ConfigOverrides \<Rightarrow> nat \<Rightarrow> 'w \<Rightarrow> 'w" where
  "world_after_polls env token pollInterval cfg 0 w = w"
| "world_after_polls env token pollInterval cfg (Suc k) w =
     world_after_polls env token pollInterval cfg k
       (sleep env pollInterval (snd (Export_fetch env token cfg w)))"

definition export_state_of :: "('j, 'a, 'w) env \<Rightarrow> error + 'j any \<Rightarrow> ExportState option" where
  "export_state_of env r =
     (case r of Inr (Parsed j) \<Rightarrow> Some (state_Export env j) | _ \<Rightarrow> None)"

definition nth_fetch_state ::
  "('j, 'a, 'w) env \<Rightarrow> string \<Rightarrow> nat \<Rightarrow> ConfigOverrides \<Rightarrow> nat \<Rightarrow> 'w \<Rightarrow> ExportState option"
  where
  "nth_fetch_state env token pollInterval cfg k w =
     export_state_of env
       (fst (Export_fetch env token cfg (world_after_polls env token pollInterval cfg k w)))"

section \<open>A call that reaches the server\<close>

text \<open>
  \<open>receives env options w response body w'\<close>: in the world \<open>w\<close> the call resolves an API
  key, and the transport answers the request built from it with \<open>response\<close> and \<open>body\<close>,
  leaving the world \<open>w'\<close>.
\<close>

definition receives ::
  "('j, 'a, 'w) env \<Rightarrow> RequestOptions \<Rightarrow> 'w \<Rightarrow> IncomingMessage \<Rightarrow> string \<Rightarrow> 'w \<Rightarrow> bool" where
  "receives env options w response body w' =
     (let cfg = merge_config (globalConfig env) (config options) in
      case resolve_apiKey (process_env env) options cfg of
        Inl e \<Rightarrow> False
      | Inr apiKey \<Rightarrow>
          (case build_opts env options cfg apiKey (with_user_token options cfg) of
             (opts, postData) \<Rightarrow>
               httpsRequest env opts postData w = (Inr (response, body), w')))"

section \<open>A mocked server (test/mocks.ts)\<close>

text \<open>
  The tests replace the transport by a queue of canned responses. The parsed JSON values
  of the mock are the typed payloads themselves, and \<open>mock_parse\<close> is \<^verbatim>\<open>JSON.parse\<close> on the
  bodies that the mock serves; it throws on the empty body.
\<close>

datatype mock_json =
    MError ErrorResponse
  | MPage "string PageResponse"
  | MExport ExportState
  | MSession SessionState

fun mock_ErrorResponse :: "mock_json \<Rightarrow> ErrorResponse" where
  "mock_ErrorResponse (MError r) = r"
| "mock_ErrorResponse _ = \<lparr> error_code = [], message = None, messages = None \<rparr>"

fun mock_PageResponse :: "mock_json \<Rightarrow> string PageResponse" where
  "mock_PageResponse (MPage r) = r"
| "mock_PageResponse _ = \<lparr> results = [], total_count = 0, total_pages = 0 \<rparr>"

fun mock_state_Export :: "mock_json \<Rightarrow> ExportState" where
  "mock_state_Export (MExport s) = s"
| "mock_state_Export _ = Pending"

fun mock_state_Session :: "mock_json \<Rightarrow> SessionState" where
  "mock_state_Session (MSession s) = s"
| "mock_state_Session _ = Requested"

definition mock_parse :: "string \<Rightarrow> mock_json any option" where
  \<open>mock_parse body =
     (if body = ''null'' then Some Null
      else if body = ''{"state":"pending"}'' then Some (Parsed (MExport Pending))
      else if body = ''{"state":"processing"}'' then Some (Parsed (MExport Processing))
      else if body = ''{"state":"successful"}'' then Some (Parsed (MExport Successful))
      else if body = ''{"state":"errored"}'' then Some (Parsed (MExport Errored))
      else if body = ''{"state":"denied"}'' then Some (Parsed (MSession Denied))
      else if body = ''{"error":"invalid","messages":{"field":["bad"]}}''
        then Some (Parsed (MError \<lparr> error_code = ''invalid'', message = None,
                                     messages = Some [(''field'', [''bad''])] \<rparr>))
      else if body = ''{"error":"unauthorized","message":""}''
        then Some (Parsed (MError \<lparr> error_code = ''unauthorized'', message = Some [],
                                     messages = None \<rparr>))
      else if body = ''{"results":["a","b"],"total_count":3,"total_pages":2}''
        then Some (Parsed (MPage \<lparr> results = [''a'', ''b''], total_count = 3,
                                    total_pages = 2 \<rparr>))
      else if body = ''{"results":["c"],"total_count":3,"total_pages":2}''
        then Some (Parsed (MPage \<lparr> results = [''c''], total_count = 3, total_pages = 2 \<rparr>))
      else if body = ''{"results":[],"total_count":3,"total_pages":2}''
        then Some (Parsed (MPage \<lparr> results = [], total_count = 3, total_pages = 2 \<rparr>))
      else if body = ''{"results":[],"total_count":-1,"total_pages":1}''
        then Some (Parsed (MPage \<lparr> results = [], total_count = - 1, total_pages = 1 \<rparr>))
      else None)\<close>

definition mock_config :: Config where
  "mock_config =
     \<lparr> name = None,
       apiBaseURL = \<lparr> hostname = ''cased.localhost'', pathname = ''/api/'' \<rparr>,
       publishBaseURL = \<lparr> hostname = ''cased.localhost'', pathname = ''/api/'' \<rparr>,
       apiVersion = 1,
       policyKey = Some ''cs_test_001'',
       policyKeys = [''organizations'' \<mapsto> ''cs_test_002''],
       publishKey = Some ''publish_test_001'',
       guardApplicationKey = None,
       guardUserToken = None \<rparr>"

definition no_overrides :: ConfigOverrides where
  "no_overrides =
     \<lparr> ov_name = None, ov_apiBaseURL = None, ov_publishBaseURL = None, ov_apiVersion = None,
       ov_policyKey = None, ov_publishKey = None, ov_guardApplicationKey = None,
       ov_guardUserToken = None \<rparr>"

definition mockResponseAs :: "string \<Rightarrow> nat \<Rightarrow> string \<Rightarrow> IncomingMessage \<times> string" where
  "mockResponseAs content_type status body =
     (\<lparr> statusCode = status, res_headers = [''content-type'' \<mapsto> content_type] \<rparr>, body)"

definition mockResponse :: "nat \<Rightarrow> string \<Rightarrow> IncomingMessage \<times> string" where
  "mockResponse status body = mockResponseAs ''application/json; charset=utf-8'' status body"

text \<open>The queue of \<^verbatim>\<open>mockImplementationOnce\<close>: each call takes the next response.\<close>

definition mock_httpsRequest ::
  "https_opts \<Rightarrow> params option \<Rightarrow> (IncomingMessage \<times> string) list
     \<Rightarrow> (error + IncomingMessage \<times> string) \<times> (IncomingMessage \<times> string) list" where
  "mock_httpsRequest opts postData w =
     (case w of
        [] \<Rightarrow> (Inl (NetworkError ''no mocked response''), [])
      | r # rs \<Rightarrow> (Inr r, rs))"

definition mock_env :: "(mock_json, string, (IncomingMessage \<times> string) list) env" where
  "mock_env =
     \<lparr> globalConfig = mock_config,
       process_env = Map.empty,
       version = ''0.0.0'',
       URL_pathname = (\<lambda>p base. pathname base @ p),
       httpsRequest = mock_httpsRequest,
       sleep = (\<lambda>delay w. w),
       JSON_parse = mock_parse,
       as_ErrorResponse = mock_ErrorResponse,
       as_PageResponse = mock_PageResponse,
       state_Export = mock_state_Export,
       state_Session = mock_state_Session \<rparr>"

definition get_events :: RequestOptions where
  "get_events =
     \<lparr> http_method = GET, baseURL = None, path = Some ''events'',
       params = [''phrase'' \<mapsto> JStr ''action:team.update''],
       config = no_overrides, page = None, perPage = None \<rparr>"


text \<open>
  A server with a result set of three items on two pages, which answers a search by the
  \<^verbatim>\<open>page\<close> parameter of the query. Its state is the list of the pages it was asked for.
\<close>

definition paged_body :: "int \<Rightarrow> string" where
  \<open>paged_body n =
     (if n = 1 then ''{"results":["a","b"],"total_count":3,"total_pages":2}''
      else if n = 2 then ''{"results":["c"],"total_count":3,"total_pages":2}''
      else ''{"results":[],"total_count":3,"total_pages":2}'')\<close>

definition paged_httpsRequest ::
  "https_opts \<Rightarrow> params option \<Rightarrow> int list \<Rightarrow> (error + IncomingMessage \<times> string) \<times> int list"
  where
  "paged_httpsRequest opts postData w =
     (case url_search opts of
        None \<Rightarrow> (Inl (NetworkError ''not a search''), w)
      | Some ps \<Rightarrow>
          (case ps ''page'' of
             Some (JNum n) \<Rightarrow> (Inr (mockResponse 200 (paged_body n)), w @ [n])
           | _ \<Rightarrow> (Inl (NetworkError ''no page''), w)))"

definition paged_env :: "(mock_json, string, int list) env" where
  "paged_env =
     \<lparr> globalConfig = mock_config,
       process_env = Map.empty,
       version = ''0.0.0'',
       URL_pathname = (\<lambda>p base. pathname base @ p),
       httpsRequest = paged_httpsRequest,
       sleep = (\<lambda>delay w. w),
       JSON_parse = mock_parse,
       as_ErrorResponse = mock_ErrorResponse,
       as_PageResponse = mock_PageResponse,
       state_Export = mock_state_Export,
       state_Session = mock_state_Session \<rparr>"

definition first_page :: "string Page" where
  "first_page =
     \<lparr> page_response = \<lparr> results = [''a'', ''b''], total_count = 3, total_pages = 2 \<rparr>,
       page_options = get_events,
       page_index = 1 \<rparr>"

definition second_page :: "string Page" where
  "second_page =
     \<lparr> page_response = \<lparr> results = [''c''], total_count = 3, total_pages = 2 \<rparr>,
       page_options = get_events\<lparr> page := Some 2 \<rparr>,
       page_index = 2 \<rparr>"

text \<open>Overrides that supply the key of a CLI application.\<close>

definition guard_overrides :: ConfigOverrides where
  "guard_overrides = no_overrides\<lparr> ov_guardApplicationKey := Some ''guard_application_001'' \<rparr>"

text \<open>A process whose default policy key is set in the environment only.\<close>

definition env_policy_key :: "string \<rightharpoonup> string" where
  "env_policy_key = [''CASED_POLICY_KEY'' \<mapsto> ''cs_env_001'']"

definition keyless_config :: Config where
  "keyless_config = mock_config\<lparr> policyKey := None \<rparr>"

definition organizations_config :: Config where
  "organizations_config = mock_config\<lparr> name := Some ''organizations'' \<rparr>"


section \<open>Properties of the request dispatcher\<close>

lemma request_receives:
  assumes "receives env options w response body w'"
  shows "request env options w = (handle_response env response body, w')"
  using assms
  by (auto simp: receives_def request_def Let_def split: sum.splits prod.splits)

lemma build_opts_JSON_parse [simp]:
  "build_opts (env\<lparr>JSON_parse := parse\<rparr>) options cfg apiKey ps
     = build_opts env options cfg apiKey ps"
  by (simp add: build_opts_def)

lemma receives_JSON_parse [simp]:
  "receives (env\<lparr>JSON_parse := parse\<rparr>) options w response body w'
     = receives env options w response body w'"
  by (simp add: receives_def Let_def split: sum.splits prod.splits)

text \<open>The mocked server answers every call that uses the default policy key.\<close>

lemmas mock_simps =
  mockResponse_def mockResponseAs_def mock_env_def mock_parse_def

lemma mock_policy_key:
  assumes "baseURL options = None" and "config options = no_overrides"
  shows "resolve_apiKey Map.empty options (merge_config mock_config (config options))
           = Inr ''cs_test_001''"
  using assms
  by (simp add: mock_config_def no_overrides_def merge_config_def resolve_apiKey_def
      getPolicyKey_def named_policy_key_def truthy_def)

lemma mock_receives:
  assumes "baseURL options = None" and "config options = no_overrides"
  shows "receives mock_env options (r # rs) (fst r) (snd r) rs"
  using mock_policy_key [OF assms]
  by (simp add: receives_def mock_env_def build_opts_def mock_httpsRequest_def Let_def)

lemma mock_get_events:
  "receives mock_env get_events (r # rs) (fst r) (snd r) rs"
  by (rule mock_receives) (simp_all add: get_events_def)

lemma mock_request:
  "request mock_env get_events (r # rs) = (handle_response mock_env (fst r) (snd r), rs)"
  by (rule request_receives [OF mock_get_events])

text \<open>
  Claim C2, as stated, fails: when no named key, no environment variable of the policy
  name and no default policy key is found, the call does not fail yet. \<^verbatim>\<open>getPolicyKey\<close>
  then reads the environment variable \<^verbatim>\<open>CASED_POLICY_KEY\<close>, and a process that has this
  variable set obtains it as the credential.
\<close>

theorem policy_key_env_fallback_counterexample:
  "resolve_apiKey env_policy_key get_events keyless_config = Inr ''cs_env_001''"
  by (simp add: resolve_apiKey_def getPolicyKey_def named_policy_key_def truthy_def
      env_policy_key_def keyless_config_def mock_config_def get_events_def)

text \<open>
  Claim C2, amended: for a call of policy scope the credential is the first of (1) the
  named policy key, when the name and the key are set and not empty; (2) the environment
  variable \<^verbatim>\<open>CASED_<name>_POLICY_KEY\<close>, when the name is set and the variable is not empty;
  (3) the default policy key, when it is not null and not empty; (4) the environment
  variable \<^verbatim>\<open>CASED_POLICY_KEY\<close>, when the default policy key is null and the variable is
  not empty. Otherwise the call fails with the \<^verbatim>\<open>AuthenticationError\<close> that names
  \<^verbatim>\<open>config.policyKey\<close>; in particular an empty default policy key fails the call without
  a look at the environment.
\<close>

theorem policy_key_resolution_order:
  assumes "baseURL options \<noteq> Some Publish" and "baseURL options \<noteq> Some Cli"
  shows "resolve_apiKey penv options cfg =
     (if truthy (name cfg) \<and> truthy (policyKeys cfg (the (name cfg)))
        then Inr (the (policyKeys cfg (the (name cfg))))
      else if truthy (name cfg) \<and> truthy (penv (''CASED_'' @ the (name cfg) @ ''_POLICY_KEY''))
        then Inr (the (penv (''CASED_'' @ the (name cfg) @ ''_POLICY_KEY'')))
      else if policyKey cfg \<noteq> None \<and> policyKey cfg \<noteq> Some []
        then Inr (the (policyKey cfg))
      else if policyKey cfg = None \<and> truthy (penv ''CASED_POLICY_KEY'')
        then Inr (the (penv ''CASED_POLICY_KEY''))
      else Inl (AuthenticationError
             (''No API key provided. '' @
              ''Set your API key using config.policyKey = <POLICY-KEY>, or supply the key with the request. '' @
              ''See https://docs.cased.com for more information.'')))"
  using assms
  by (auto simp: resolve_apiKey_def getPolicyKey_def named_policy_key_def truthy_def Let_def
      split: option.splits)

theorem policy_key_resolution_order_witness:
  "resolve_apiKey env_policy_key get_events organizations_config = Inr ''cs_test_002''"
proof -
  have a: "baseURL get_events \<noteq> Some Publish" and b: "baseURL get_events \<noteq> Some Cli"
    by (simp_all add: get_events_def)
  show ?thesis
    using policy_key_resolution_order [OF a b, of env_policy_key organizations_config]
    by (simp add: organizations_config_def mock_config_def truthy_def)
qed

text \<open>
  Claim C7, as stated, fails: a response of status 204 that declares the JSON content type
  and has an empty body makes \<^verbatim>\<open>JSON.parse\<close> throw, and the call raises.
\<close>

theorem request_malformed_body_counterexample:
  "request mock_env get_events [mockResponse 204 []] = (Inl SyntaxError, [])"
  unfolding mock_request
  by (simp add: handle_response_def mock_simps)

text \<open>
  Claim C7, amended: for every response with status 200, 201, 202, 204, 400 or 404, when
  the content type is not the JSON content type the call returns a null payload, and
  when it is, the call returns the parsed body as an ordinary value, and raises only
  when the body does not parse. Statuses 400 and 404 are passed through like 200.
\<close>

theorem request_success_status_payload:
  assumes "receives env options w response body w'"
    and "statusCode response \<in> {200, 201, 202, 204, 400, 404}"
  shows "request env options w =
           (if res_headers response ''content-type'' = Some ''application/json; charset=utf-8''
            then (case JSON_parse env body of None \<Rightarrow> Inl SyntaxError | Some data \<Rightarrow> Inr data)
            else Inr Null, w')"
  using assms(2) unfolding request_receives [OF assms(1)]
  by (auto simp: handle_response_def split: option.splits)

theorem request_success_status_payload_witness:
  \<open>request mock_env get_events [mockResponse 404 ''{"state":"errored"}'']
     = (Inr (Parsed (MExport Errored)), [])\<close>
proof -
  let ?r = \<open>mockResponse 404 ''{"state":"errored"}''\<close>
  have r: "receives mock_env get_events [?r] (fst ?r) (snd ?r) []"
    by (rule mock_get_events)
  have s: "statusCode (fst ?r) \<in> {200, 201, 202, 204, 400, 404}"
    by (simp add: mock_simps)
  show ?thesis
    using request_success_status_payload [OF r s] by (simp add: mock_simps)
qed

text \<open>
  Claim C8, as stated, fails: a body whose \<open>message\<close> field is present and empty does not
  give an error with the empty message; the constructor tests the field for truthiness
  and goes on to \<open>messages\<close> and the generic message.
\<close>

theorem APIError_empty_message_counterexample:
  \<open>request mock_env get_events [mockResponse 401 ''{"error":"unauthorized","message":""}'']
     = (Inl (APIError ''unknown API error''), [])\<close>
  unfolding mock_request
  by (simp add: handle_response_def new_APIError_def APIError_message_def truthy_def mock_simps)

text \<open>
  Claim C8, amended: for every response with status 401 or 417 that carries a parsed,
  non-null JSON body, the call raises \<^verbatim>\<open>APIError\<close> with the message: the \<open>message\<close> field
  of the body when it is present and not empty; else, when the body has a \<open>messages\<close>
  mapping of fields to lists of strings, the entries rendered as the field, a space and
  the strings joined by commas, and joined by a comma and a space; else
  \<^verbatim>\<open>unknown API error\<close>.
\<close>

theorem request_APIError_message:
  assumes "receives env options w response body w'"
    and "statusCode response \<in> {401, 417}"
    and "res_headers response ''content-type'' = Some ''application/json; charset=utf-8''"
    and "JSON_parse env body = Some (Parsed j)"
  shows "request env options w =
           (Inl (APIError
              (case message (as_ErrorResponse env j) of
                 Some m \<Rightarrow>
                   if m \<noteq> [] then m
                   else (case messages (as_ErrorResponse env j) of
                           Some ms \<Rightarrow>
                             join '', '' (map (\<lambda>(field, xs). field @ '' '' @ join '','' xs) ms)
                         | None \<Rightarrow> ''unknown API error'')
               | None \<Rightarrow>
                   (case messages (as_ErrorResponse env j) of
                      Some ms \<Rightarrow>
                        join '', '' (map (\<lambda>(field, xs). field @ '' '' @ join '','' xs) ms)
                    | None \<Rightarrow> ''unknown API error''))), w')"
  using assms(2-4) unfolding request_receives [OF assms(1)]
  by (auto simp: handle_response_def new_APIError_def APIError_message_def truthy_def
      split: option.splits)

theorem request_APIError_message_witness:
  \<open>request mock_env get_events
      [mockResponse 401 ''{"error":"invalid","messages":{"field":["bad"]}}'']
     = (Inl (APIError ''field bad''), [])\<close>
proof -
  let ?r = \<open>mockResponse 401 ''{"error":"invalid","messages":{"field":["bad"]}}''\<close>
  have r: "receives mock_env get_events [?r] (fst ?r) (snd ?r) []"
    by (rule mock_get_events)
  have s: "statusCode (fst ?r) \<in> {401, 417}"
    by (simp add: mock_simps)
  have h: "res_headers (fst ?r) ''content-type'' = Some ''application/json; charset=utf-8''"
    by (simp add: mock_simps)
  have p: "JSON_parse mock_env (snd ?r)
             = Some (Parsed (MError \<lparr> error_code = ''invalid'', message = None,
                                        messages = Some [(''field'', [''bad''])] \<rparr>))"
    by (simp add: mock_simps)
  show ?thesis
    using request_APIError_message [OF r s h p] by (simp add: mock_env_def)
qed

text \<open>
  Claim C9: for every response with status 401 or 417 whose content type is not exactly
  \<^verbatim>\<open>application/json; charset=utf-8\<close>, the body is never parsed (the outcome is the same
  for every parser) and the call raises a \<^verbatim>\<open>TypeError\<close>, not an \<^verbatim>\<open>APIError\<close>: the
  constructor of \<^verbatim>\<open>APIError\<close> reads the \<open>message\<close> field of the null payload.
\<close>

theorem request_unparsed_error_TypeError:
  assumes "receives env options w response body w'"
    and "statusCode response \<in> {401, 417}"
    and "res_headers response ''content-type'' \<noteq> Some ''application/json; charset=utf-8''"
  shows "request env options w = (Inl TypeError, w')
         \<and> (\<forall>parse. request (env\<lparr>JSON_parse := parse\<rparr>) options w = (Inl TypeError, w'))
         \<and> (\<forall>m. fst (request env options w) \<noteq> Inl (APIError m))"
proof -
  have "request (env\<lparr>JSON_parse := parse\<rparr>) options w = (Inl TypeError, w')" for parse
  proof -
    have "receives (env\<lparr>JSON_parse := parse\<rparr>) options w response body w'"
      using assms(1) by simp
    from request_receives [OF this] assms(2,3) show ?thesis
      by (auto simp: handle_response_def new_APIError_def)
  qed
  moreover have "request env options w = (Inl TypeError, w')"
    using request_receives [OF assms(1)] assms(2,3)
    by (auto simp: handle_response_def new_APIError_def)
  ultimately show ?thesis by simp
qed

theorem request_unparsed_error_TypeError_witness:
  "request mock_env get_events [mockResponseAs ''text/html'' 401 ''Unauthorized'']
     = (Inl TypeError, [])"
proof -
  let ?r = "mockResponseAs ''text/html'' 401 ''Unauthorized''"
  have r: "receives mock_env get_events [?r] (fst ?r) (snd ?r) []"
    by (rule mock_get_events)
  have s: "statusCode (fst ?r) \<in> {401, 417}"
    by (simp add: mock_simps)
  have h: "res_headers (fst ?r) ''content-type'' \<noteq> Some ''application/json; charset=utf-8''"
    by (simp add: mock_simps)
  show ?thesis
    using request_unparsed_error_TypeError [OF r s h] by simp
qed

text \<open>
  Claim C10: the body is parsed if and only if the content type equals the exact string
  \<^verbatim>\<open>application/json; charset=utf-8\<close>. With any other content type the outcome of the call
  does not depend on the parser, and for the statuses 200, 201, 202, 204, 400 and 404 it
  is the null payload; with the exact content type a body that does not parse fails the
  call, and for these statuses the payload is what the parser returns.
\<close>

theorem request_parses_exact_content_type:
  assumes "receives env options w response body w'"
  shows "(res_headers response ''content-type'' \<noteq> Some ''application/json; charset=utf-8'' \<longrightarrow>
            (\<forall>parse. request (env\<lparr>JSON_parse := parse\<rparr>) options w = request env options w)
            \<and> (statusCode response \<in> {200, 201, 202, 204, 400, 404} \<longrightarrow>
                 request env options w = (Inr Null, w')))
       \<and> (res_headers response ''content-type'' = Some ''application/json; charset=utf-8'' \<longrightarrow>
            (JSON_parse env body = None \<longrightarrow> request env options w = (Inl SyntaxError, w'))
            \<and> (\<forall>data. JSON_parse env body = Some data
                   \<and> statusCode response \<in> {200, 201, 202, 204, 400, 404} \<longrightarrow>
                 request env options w = (Inr data, w')))"
proof -
  have eq: "request (env\<lparr>JSON_parse := parse\<rparr>) options w
              = (handle_response (env\<lparr>JSON_parse := parse\<rparr>) response body, w')" for parse
    using assms by (intro request_receives) simp
  show ?thesis
    unfolding eq request_receives [OF assms]
    by (auto simp: handle_response_def new_APIError_def)
qed

theorem request_parses_exact_content_type_witness:
  \<open>request mock_env get_events
      [mockResponseAs ''application/json'' 200 ''{"state":"successful"}''] = (Inr Null, [])\<close>
proof -
  let ?r = \<open>mockResponseAs ''application/json'' 200 ''{"state":"successful"}''\<close>
  have r: "receives mock_env get_events [?r] (fst ?r) (snd ?r) []"
    by (rule mock_get_events)
  show ?thesis
    using request_parses_exact_content_type [OF r] by (simp add: mockResponseAs_def)
qed


section \<open>Properties of the paged cursor\<close>

lemma requestPage_closure:
  assumes "requestPage env options w0 = (Inr pg, w1)"
  shows "page_index pg = or_default (page options) 1" and "page_options pg = options"
  using assms
  by (auto simp: requestPage_def Let_def split: prod.splits sum.splits any.splits if_splits)


lemma mock_requestPage:
  assumes "baseURL options = None" and "config options = no_overrides"
  shows "requestPage mock_env options (mockResponse 200 body # rs) =
     (case mock_parse body of
        None \<Rightarrow> (Inl SyntaxError, rs)
      | Some Null \<Rightarrow> (Inl TypeError, rs)
      | Some (Location l) \<Rightarrow> (Inl (AssertionError ''response.total_count >= 0''), rs)
      | Some (Parsed j) \<Rightarrow>
          if \<not> 0 \<le> total_count (mock_PageResponse j)
            then (Inl (AssertionError ''response.total_count >= 0''), rs)
          else if \<not> 0 < total_pages (mock_PageResponse j)
            then (Inl (AssertionError ''response.total_pages > 0''), rs)
          else (Inr \<lparr> page_response = mock_PageResponse j, page_options = options,
                       page_index = or_default (page options) 1 \<rparr>, rs))"
proof -
  let ?o = "options\<lparr> params := [''page'' \<mapsto> JNum (or_default (page options) 1),
                   ''per_page'' \<mapsto> JNum (or_default (perPage options) 25)] ++ params options \<rparr>"
  have "request mock_env ?o (mockResponse 200 body # rs)
        = (handle_response mock_env (fst (mockResponse 200 body)) (snd (mockResponse 200 body)), rs)"
    by (intro request_receives mock_receives) (simp_all add: assms)
  then show ?thesis
    by (simp add: requestPage_def Let_def handle_response_def
        mockResponse_def mockResponseAs_def mock_env_def split: option.splits any.splits)
qed

text \<open>
  Claim C4: for every cursor that \<^verbatim>\<open>requestPage\<close> returns, \<^verbatim>\<open>nextPage\<close> yields null, without
  a request, exactly when the page index (\<^verbatim>\<open>options.page || 1\<close>) is at least the page
  count, and otherwise is \<^verbatim>\<open>requestPage\<close> on the original options with the page index plus
  one; \<^verbatim>\<open>previousPage\<close> yields null exactly when the page index is at most one, and
  otherwise is \<^verbatim>\<open>requestPage\<close> on the original options with the page index minus one.
\<close>

theorem nextPage_previousPage_null:
  assumes "requestPage env options w0 = (Inr pg, w1)"
  shows "(fst (nextPage env pg w) = Inr None \<longleftrightarrow> pageCount pg \<le> or_default (page options) 1)
       \<and> (pageCount pg \<le> or_default (page options) 1 \<longrightarrow> nextPage env pg w = (Inr None, w))
       \<and> (or_default (page options) 1 < pageCount pg \<longrightarrow>
            nextPage env pg w =
              apfst (map_sum id Some)
                (requestPage env (options\<lparr> page := Some (or_default (page options) 1 + 1) \<rparr>) w))
       \<and> (fst (previousPage env pg w) = Inr None \<longleftrightarrow> or_default (page options) 1 \<le> 1)
       \<and> (or_default (page options) 1 \<le> 1 \<longrightarrow> previousPage env pg w = (Inr None, w))
       \<and> (1 < or_default (page options) 1 \<longrightarrow>
            previousPage env pg w =
              apfst (map_sum id Some)
                (requestPage env (options\<lparr> page := Some (or_default (page options) 1 - 1) \<rparr>) w))"
  unfolding nextPage_def previousPage_def pageCount_def requestPage_closure [OF assms]
  by (auto split: prod.splits sum.splits)

theorem nextPage_previousPage_null_witness:
  \<open>nextPage mock_env first_page
      [mockResponse 200 ''{"results":["c"],"total_count":3,"total_pages":2}'']
     = (Inr (Some second_page), [])
   \<and> nextPage mock_env second_page [] = (Inr None, [])
   \<and> previousPage mock_env first_page [] = (Inr None, [])\<close>
proof -
  let ?b1 = \<open>''{"results":["a","b"],"total_count":3,"total_pages":2}''\<close>
  let ?b2 = \<open>''{"results":["c"],"total_count":3,"total_pages":2}''\<close>
  have o1: "baseURL get_events = None" "config get_events = no_overrides"
    and o2: "baseURL (get_events\<lparr> page := Some 2 \<rparr>) = None"
      "config (get_events\<lparr> page := Some 2 \<rparr>) = no_overrides"
    by (simp_all add: get_events_def)
  have p1: "requestPage mock_env get_events [mockResponse 200 ?b1] = (Inr first_page, [])"
    unfolding mock_requestPage [OF o1]
    by (simp add: mock_parse_def first_page_def or_default_def get_events_def)
  have p2: "requestPage mock_env (get_events\<lparr> page := Some 2 \<rparr>) [mockResponse 200 ?b2]
              = (Inr second_page, [])"
    unfolding mock_requestPage [OF o2]
    by (simp add: mock_parse_def second_page_def or_default_def get_events_def)
  have d: "or_default (page get_events) 1 = 1" "or_default (Some 2) 1 = 2"
    "pageCount first_page = 2" "pageCount second_page = 2"
    by (simp_all add: or_default_def get_events_def pageCount_def first_page_def second_page_def)
  show ?thesis
    using nextPage_previousPage_null [OF p1, of "[mockResponse 200 ?b2]"]
      nextPage_previousPage_null [OF p1, of "[]"] nextPage_previousPage_null [OF p2, of "[]"]
    by (simp add: d p2)
qed




text \<open>The paged server answers the first page of a search.\<close>

lemma paged_receives:
  assumes "baseURL options = None" and "config options = no_overrides"
    and "http_method options = GET" and "params options ''page'' = Some (JNum n)"
  shows "receives paged_env options w
           (fst (mockResponse 200 (paged_body n))) (snd (mockResponse 200 (paged_body n)))
           (w @ [n])"
proof -
  have m: "merge_config mock_config no_overrides = mock_config"
    by (simp add: merge_config_def no_overrides_def mock_config_def)
  have k: "resolve_apiKey Map.empty options mock_config = Inr ''cs_test_001''"
    using mock_policy_key [OF assms(1,2)] unfolding assms(2) m .
  show ?thesis
    by (simp add: receives_def paged_env_def m k build_opts_def with_user_token_def Let_def
        paged_httpsRequest_def assms)
qed

lemma paged_requestPage:
  assumes "baseURL options = None" and "config options = no_overrides"
    and "http_method options = GET" and "params options ''page'' = None"
    and "or_default (page options) 1 = 1"
  shows "requestPage paged_env options w =
           (Inr \<lparr> page_response = \<lparr> results = [''a'', ''b''], total_count = 3, total_pages = 2 \<rparr>,
                   page_options = options, page_index = 1 \<rparr>, w @ [1])"
proof -
  let ?o = "options\<lparr> params := [''page'' \<mapsto> JNum 1,
                   ''per_page'' \<mapsto> JNum (or_default (perPage options) 25)] ++ params options \<rparr>"
  have "receives paged_env ?o w
          (fst (mockResponse 200 (paged_body 1))) (snd (mockResponse 200 (paged_body 1)))
          (w @ [1])"
    by (rule paged_receives) (simp_all add: assms map_add_def)
  from request_receives [OF this] show ?thesis
    by (simp add: requestPage_def assms Let_def handle_response_def mock_simps paged_env_def
        paged_body_def)
qed

text \<open>
  Every page that the generator requests lies between the page index and the page count,
  the latter excluded: the page numbered \<open>total_pages\<close> is never requested by it.
\<close>

lemma asyncIterator_from_requests:
  assumes "asyncIterator_from env pg p w = (evs, r, w')" and "Request_page q \<in> set evs"
  shows "p \<le> q \<and> q < total_pages (page_response pg)"
  using assms
proof (induction env pg p w arbitrary: evs r w' rule: asyncIterator_from.induct)
  case (1 env pg p w)
  show ?case
  proof (cases "p < total_pages (page_response pg)")
    case False
    with "1.prems" show ?thesis
      by (simp add: asyncIterator_from.simps [of env pg p w])
  next
    case True
    obtain res w1 where rp: "requestPage env ((page_options pg)\<lparr> page := Some p \<rparr>) w = (res, w1)"
      by (cases "requestPage env ((page_options pg)\<lparr> page := Some p \<rparr>) w")
    show ?thesis
    proof (cases res)
      case (Inl e)
      with True rp "1.prems" show ?thesis
        by (auto simp: asyncIterator_from.simps [of env pg p w])
    next
      case (Inr pg')
      obtain evs' r' w2 where it: "asyncIterator_from env pg (p + 1) w1 = (evs', r', w2)"
        by (cases "asyncIterator_from env pg (p + 1) w1")
      from True rp Inr it "1.prems"(1)
      have evs: "evs = Request_page p # map Yield (iterator pg') @ evs'"
        by (simp add: asyncIterator_from.simps [of env pg p w])
      from "1.prems"(2) evs consider "q = p" | "Request_page q \<in> set evs'"
        by auto
      then show ?thesis
      proof cases
        case 1
        with True show ?thesis by simp
      next
        case 2
        have "p + 1 \<le> q \<and> q < total_pages (page_response pg)"
          using "1.IH" [OF True _ _ it 2] rp Inr by simp
        then show ?thesis by simp
      qed
    qed
  qed
qed

text \<open>
  Claim C1 does not hold of the code. Against a server with three items on two pages, the
  cursor of page 1 is obtained with one request. Draining its asynchronous sequence then
  requests page 1 again and yields the two items of that page, and ends: page 2 is never
  requested and its item is never yielded, so that two of \<open>total_count = 3\<close> items are
  seen. The state of the server at the end lists the requests it received.
\<close>

theorem asyncIterator_skips_last_page:
  "requestPage paged_env get_events [] = (Inr first_page, [1])
   \<and> asyncIterator paged_env first_page [1]
       = ([Request_page 1, Yield ''a'', Yield ''b''], Inr (), [1, 1])"
proof -
  have p1: "requestPage paged_env get_events [] = (Inr first_page, [1])"
    by (simp add: paged_requestPage get_events_def or_default_def first_page_def)
  have p1': "requestPage paged_env (get_events\<lparr> page := Some 1 \<rparr>) [1]
               = (Inr (first_page\<lparr> page_options := get_events\<lparr> page := Some 1 \<rparr> \<rparr>), [1, 1])"
    by (simp add: paged_requestPage get_events_def or_default_def first_page_def)
  have "asyncIterator paged_env first_page [1]
       = ([Request_page 1, Yield ''a'', Yield ''b''], Inr (), [1, 1])"
    unfolding asyncIterator_def
    apply (subst asyncIterator_from.simps)
    apply (subst asyncIterator_from.simps)
    apply (simp add: first_page_def p1' [unfolded first_page_def] iterator_def)
    done
  with p1 show ?thesis by simp
qed


section \<open>Properties of the polling loops\<close>

lemma Export_settled_pending:
  assumes "Export_fetch env token cfg w = (Inr (Parsed j), w')"
    and "state_Export env j = Pending \<or> state_Export env j = Processing"
  shows "Export_settled env token i cfg evs w =
           Export_settled env token i cfg (evs @ [Fetch, Sleep i]) (sleep env i w')"
  using assms by (subst Export_settled.simps) auto

lemma Export_settled_successful:
  assumes "Export_fetch env token cfg w = (Inr (Parsed j), w')"
    and "state_Export env j = Successful"
  shows "Export_settled env token i cfg evs w = Some (Inr (), evs @ [Fetch], w')"
  using assms by (subst Export_settled.simps) auto

lemma Export_settled_errored:
  assumes "Export_fetch env token cfg w = (Inr (Parsed j), w')"
    and "state_Export env j = Errored"
  shows "Export_settled env token i cfg evs w =
           Some (Inl (ExportError ''export errored''), evs @ [Fetch], w')"
  using assms by (subst Export_settled.simps) auto

lemma Session_settled_default:
  assumes "Session_fetch env sessionId cfg w = (Inr (Parsed j), w')"
    and "state_Session env j \<noteq> Requested"
  shows "Session_settled env sessionId i cfg evs w = Some (Inr (Parsed j), evs @ [Fetch], w')"
  using assms by (subst Session_settled.simps) (auto split: SessionState.splits)

lemma export_state_of_Some:
  assumes "export_state_of env (fst (Export_fetch env token cfg w)) = Some s"
  shows "\<exists>j. Export_fetch env token cfg w = (Inr (Parsed j), snd (Export_fetch env token cfg w))
              \<and> state_Export env j = s"
  using assms
  by (cases "Export_fetch env token cfg w")
     (auto simp: export_state_of_def split: sum.splits any.splits)

text \<open>
  The loop on a sequence of \<open>n\<close> pending fetches followed by a successful one, for any
  events \<open>evs\<close> already performed: induction on \<open>n\<close>, one round of the loop per step.
\<close>

lemma Export_settled_polls:
  assumes "\<forall>k<n. nth_fetch_state env token i cfg k w \<in> {Some Pending, Some Processing}"
    and "nth_fetch_state env token i cfg n w = Some Successful"
  shows "Export_settled env token i cfg evs w =
           Some (Inr (), evs @ concat (replicate n [Fetch, Sleep i]) @ [Fetch],
                 snd (Export_fetch env token cfg (world_after_polls env token i cfg n w)))"
  using assms
proof (induction n arbitrary: w evs)
  case 0
  then have "export_state_of env (fst (Export_fetch env token cfg w)) = Some Successful"
    by (simp add: nth_fetch_state_def)
  from export_state_of_Some [OF this] obtain j where
    "Export_fetch env token cfg w = (Inr (Parsed j), snd (Export_fetch env token cfg w))"
    "state_Export env j = Successful" by blast
  from Export_settled_successful [OF this] show ?case by simp
next
  case (Suc n)
  let ?w = "sleep env i (snd (Export_fetch env token cfg w))"
  from Suc.prems(1) have "nth_fetch_state env token i cfg 0 w \<in> {Some Pending, Some Processing}"
    by blast
  then consider "export_state_of env (fst (Export_fetch env token cfg w)) = Some Pending"
    | "export_state_of env (fst (Export_fetch env token cfg w)) = Some Processing"
    by (auto simp: nth_fetch_state_def)
  then obtain j where
    f: "Export_fetch env token cfg w = (Inr (Parsed j), snd (Export_fetch env token cfg w))"
    and s: "state_Export env j = Pending \<or> state_Export env j = Processing"
    using export_state_of_Some by (metis (no_types))
  have shift: "nth_fetch_state env token i cfg k ?w = nth_fetch_state env token i cfg (Suc k) w"
    for k
    by (simp add: nth_fetch_state_def)
  have 1: "\<forall>k<n. nth_fetch_state env token i cfg k ?w \<in> {Some Pending, Some Processing}"
    using Suc.prems(1) by (simp add: shift)
  have 2: "nth_fetch_state env token i cfg n ?w = Some Successful"
    using Suc.prems(2) by (simp add: shift)
  show ?case
    unfolding Export_settled_pending [OF f s] Suc.IH [OF 1 2]
    by simp
qed

text \<open>The mocked server in the polling loops.\<close>

lemma mock_Export_fetch:
  "Export_fetch mock_env token no_overrides (r # rs) = (handle_response mock_env (fst r) (snd r), rs)"
  unfolding Export_fetch_def
  by (intro request_receives mock_receives) simp_all

lemma mock_export_state:
  "export_state_of mock_env
     (handle_response mock_env (fst (mockResponse 200 body)) (snd (mockResponse 200 body)))
     = (case mock_parse body of Some (Parsed j) \<Rightarrow> Some (mock_state_Export j) | _ \<Rightarrow> None)"
  by (simp add: export_state_of_def handle_response_def mockResponse_def mockResponseAs_def
      mock_env_def split: option.splits any.splits)

lemma mock_sleep [simp]: "sleep mock_env i w = w"
  by (simp add: mock_env_def)

lemma mock_guard_receives:
  assumes "baseURL options = Some Cli" and "config options = guard_overrides"
  shows "receives mock_env options (r # rs) (fst r) (snd r) rs"
  using assms
  by (simp add: receives_def mock_env_def build_opts_def mock_httpsRequest_def Let_def
      resolve_apiKey_def merge_config_def guard_overrides_def no_overrides_def truthy_def)

lemma mock_Session_fetch:
  "Session_fetch mock_env sessionId guard_overrides (r # rs)
     = (handle_response mock_env (fst r) (snd r), rs)"
  unfolding Session_fetch_def
  by (intro request_receives mock_guard_receives) simp_all

text \<open>
  Claim C6: when the first \<open>n\<close> fetches of an export return \<^verbatim>\<open>pending\<close> or \<^verbatim>\<open>processing\<close>
  and the next one returns \<^verbatim>\<open>successful\<close>, \<^verbatim>\<open>Export.settled\<close> returns normally; it has fetched
  \<open>n + 1\<close> times, slept for the poll interval once after each of the \<open>n\<close> pending fetches,
  and not slept after the last fetch.
\<close>

theorem Export_settled_success_after_pending:
  assumes "\<forall>k<n. nth_fetch_state env token pollInterval cfg k w \<in> {Some Pending, Some Processing}"
    and "nth_fetch_state env token pollInterval cfg n w = Some Successful"
  shows "Export_settled env token pollInterval cfg [] w =
           Some (Inr (), concat (replicate n [Fetch, Sleep pollInterval]) @ [Fetch],
                 snd (Export_fetch env token cfg
                        (world_after_polls env token pollInterval cfg n w)))"
  using Export_settled_polls [OF assms, of "[]"] by simp

theorem Export_settled_success_after_pending_witness:
  \<open>Export_settled mock_env ''00000000-7b43-43a9-bb74-e924773e876d'' 30000 no_overrides []
      [mockResponse 200 ''{"state":"pending"}'', mockResponse 200 ''{"state":"processing"}'',
       mockResponse 200 ''{"state":"successful"}'']
     = Some (Inr (), [Fetch, Sleep 30000, Fetch, Sleep 30000, Fetch], [])\<close>
proof -
  let ?t = "''00000000-7b43-43a9-bb74-e924773e876d''"
  let ?w = \<open>[mockResponse 200 ''{"state":"pending"}'', mockResponse 200 ''{"state":"processing"}'',
       mockResponse 200 ''{"state":"successful"}'']\<close>
  have n0: "nth_fetch_state mock_env ?t 30000 no_overrides 0 ?w = Some Pending"
    and n1: "nth_fetch_state mock_env ?t 30000 no_overrides (Suc 0) ?w = Some Processing"
    and n2: "nth_fetch_state mock_env ?t 30000 no_overrides (Suc (Suc 0)) ?w = Some Successful"
    by (simp_all add: nth_fetch_state_def mock_Export_fetch mock_export_state mock_parse_def)
  have h: "\<forall>k<Suc (Suc 0). nth_fetch_state mock_env ?t 30000 no_overrides k ?w
             \<in> {Some Pending, Some Processing}"
    by (simp add: less_Suc_eq n0 n1)
  show ?thesis
    using Export_settled_success_after_pending [OF h n2] by (simp add: mock_Export_fetch)
qed

text \<open>
  Claim C3, as stated, fails for authorization sessions: a fetch that returns \<^verbatim>\<open>denied\<close>
  makes \<^verbatim>\<open>Session.settled\<close> return the session normally; no error is raised.
\<close>

theorem Session_settled_denied_counterexample:
  \<open>Session_settled mock_env ''session_1'' 1000 guard_overrides []
      [mockResponse 200 ''{"state":"denied"}'']
     = Some (Inr (Parsed (MSession Denied)), [Fetch], [])\<close>
  apply (subst Session_settled.simps)
  unfolding mock_Session_fetch
  apply (simp add: handle_response_def mock_simps)
  done

text \<open>
  Claim C3, amended: when a fetch of an export returns \<^verbatim>\<open>errored\<close>, \<^verbatim>\<open>Export.settled\<close> raises
  \<^verbatim>\<open>ExportError\<close> and stops polling, with this fetch as its last event and no sleep after
  it (one fetch and no sleep when it is the first fetch); when a fetch of a session
  returns \<^verbatim>\<open>approved\<close>, \<^verbatim>\<open>denied\<close>, \<^verbatim>\<open>timed_out\<close> or \<^verbatim>\<open>canceled\<close>, \<^verbatim>\<open>Session.settled\<close> stops
  polling in the same way and returns the session normally.
\<close>

theorem settled_terminal_state:
  "(\<forall>j w'. Export_fetch env token cfg w = (Inr (Parsed j), w') \<and> state_Export env j = Errored \<longrightarrow>
       Export_settled env token pollInterval cfg evs w
         = Some (Inl (ExportError ''export errored''), evs @ [Fetch], w'))
   \<and> (\<forall>j w'. Session_fetch env sessionId cfg' w = (Inr (Parsed j), w')
          \<and> state_Session env j \<in> {Approved, Denied, Timed_out, Canceled} \<longrightarrow>
       Session_settled env sessionId pollInterval' cfg' evs w
         = Some (Inr (Parsed j), evs @ [Fetch], w'))"
  by (auto simp: Export_settled_errored Session_settled_default)

theorem settled_terminal_state_witness:
  \<open>Export_settled mock_env ''export_1'' 30000 no_overrides []
      [mockResponse 200 ''{"state":"errored"}'']
     = Some (Inl (ExportError ''export errored''), [Fetch], [])\<close>
proof -
  let ?r = \<open>mockResponse 200 ''{"state":"errored"}''\<close>
  have f: "Export_fetch mock_env ''export_1'' no_overrides [?r]
             = (Inr (Parsed (MExport Errored)), [])"
    unfolding mock_Export_fetch by (simp add: handle_response_def mock_simps)
  have s: "state_Export mock_env (MExport Errored) = Errored"
    by (simp add: mock_env_def)
  from settled_terminal_state [of mock_env "''export_1''" no_overrides "[?r]" 30000 "[]"] f s
  show ?thesis by simp
qed

end
